theory Spec2Isabelle
  imports Complex_Main "HOL-Library.Char_ord" "HOL-Library.List_Lexorder"
begin

section \<open>Data model\<close>

text \<open>
  A pandas DataFrame is a table with a date index, a list of column keys and one cell per
  (date, column). A cell holds a finite number or is missing (NaN): \<open>None\<close> is NaN.
  Floating-point rounding and the infinities are outside this model; numbers are reals.
  Dates are day numbers, so that the chronological order is the order of \<open>nat\<close>.
\<close>

type_synonym date = nat
type_synonym instrument = string
type_synonym float = "real option"

record ('c, 'v) frame =
  index :: "date list"
  columns :: "'c list"
  cell :: "date \<Rightarrow> 'c \<Rightarrow> 'v option"

type_synonym panel = "(instrument, real) frame"

record series =
  s_index :: "date list"
  s_val :: "date \<Rightarrow> float"

text \<open>Reading a cell by labels: a label that the frame does not have reads as missing.\<close>

definition cell_at :: "('c, 'v) frame \<Rightarrow> date \<Rightarrow> 'c \<Rightarrow> 'v option" where
  "cell_at f d c = (if d \<in> set (index f) \<and> c \<in> set (columns f) then cell f d c else None)"

subsection \<open>Arithmetic with NaN\<close>

fun fmul :: "float \<Rightarrow> float \<Rightarrow> float" where
  "fmul (Some x) (Some y) = Some (x * y)"
| "fmul _ _ = None"

fun fadd :: "float \<Rightarrow> float \<Rightarrow> float" where
  "fadd (Some x) (Some y) = Some (x + y)"
| "fadd _ _ = None"

fun fsub :: "float \<Rightarrow> float \<Rightarrow> float" where
  "fsub (Some x) (Some y) = Some (x - y)"
| "fsub _ _ = None"

text \<open>A quotient by zero is not a finite number: it is outside the finite values.\<close>

fun fdiv :: "float \<Rightarrow> float \<Rightarrow> float" where
  "fdiv (Some x) (Some y) = (if y = 0 then None else Some (x / y))"
| "fdiv _ _ = None"

fun dropna :: "'a option list \<Rightarrow> 'a list" where
  "dropna [] = []"
| "dropna (None # vs) = dropna vs"
| "dropna (Some v # vs) = v # dropna vs"

text \<open>\<open>mean\<close> and \<open>std\<close> of pandas skip NaN; \<open>std\<close> is the sample deviation (ddof = 1),
  NaN with fewer than two observations.\<close>

definition nanmean :: "float list \<Rightarrow> float" where
  "nanmean vs = (let xs = dropna vs in
     if xs = [] then None else Some (sum_list xs / real (length xs)))"

definition nanstd :: "float list \<Rightarrow> float" where
  "nanstd vs = (let xs = dropna vs; n = length xs in
     if n < 2 then None
     else let m = sum_list xs / real n in
       Some (sqrt (sum_list (map (\<lambda>x. (x - m)\<^sup>2) xs) / real (n - 1))))"

definition s_values :: "series \<Rightarrow> float list" where
  "s_values s = map (s_val s) (s_index s)"

definition smean :: "series \<Rightarrow> float" where
  "smean s = nanmean (s_values s)"

definition sstd :: "series \<Rightarrow> float" where
  "sstd s = nanstd (s_values s)"

definition np_sqrt :: "real \<Rightarrow> float" where
  "np_sqrt x = (if x < 0 then None else Some (sqrt x))"

section \<open>Performance summary\<close>

text \<open>\<open>calculate_sharpe_ratio\<close>: the comparison \<open>std_return != 0\<close> is true for NaN.\<close>

definition calculate_sharpe_ratio :: "series \<Rightarrow> int \<Rightarrow> float" where
  "calculate_sharpe_ratio returns annualization =
     (let mean_return = fmul (smean returns) (Some (real_of_int annualization));
          std_return = fmul (sstd returns) (np_sqrt (real_of_int annualization))
      in if std_return \<noteq> Some 0 then fdiv mean_return std_return else Some 0)"

section \<open>Errors and diagnostics\<close>

text \<open>
  Exceptions of the source are values. \<open>KeyError\<close> is a missing dictionary key,
  \<open>IndexKeyError\<close> the \<open>KeyError\<close> of \<open>df.loc[dates]\<close> for dates the frame lacks,
  \<open>ValueError\<close> any \<open>ValueError\<close> of pandas. The \<open>print\<close> calls of the source are
  diagnostics, collected in order.
\<close>

datatype error = KeyError string | IndexKeyError "date list" | ValueError

datatype diag =
    GroupingError date
  | TooFewValues date nat
  | NoGrouping string
  | EmptyLongShort string

text \<open>The label \<open>Q n\<close> stands for the string \<open>f'Q{n}'\<close>.\<close>

datatype label = Q nat

section \<open>Cross-sectional bucketing\<close>

definition loc_row :: "('c, 'v) frame \<Rightarrow> date \<Rightarrow> 'v option list" where
  "loc_row f dt = map (cell f dt) (columns f)"

text \<open>\<open>Series.rank(method='first')\<close>: ascending ranks from 1, equal values ranked in
  order of appearance, NaN kept.\<close>

definition rank_first :: "float list \<Rightarrow> float list" where
  "rank_first vs = map (\<lambda>i. case vs ! i of None \<Rightarrow> None
       | Some v \<Rightarrow> Some (real (1 + length (filter (\<lambda>w. w < v) (dropna vs))
                                + length (filter (\<lambda>w. w = v) (dropna (take i vs))))))
     [0..<length vs]"

text \<open>\<open>np.linspace(0, 1, q + 1)\<close>.\<close>

definition linspace01 :: "nat \<Rightarrow> real list" where
  "linspace01 q = (if q = 0 then [0] else map (\<lambda>j. real j / real q) [0..<q + 1])"

text \<open>The quantile of a sorted non-empty list by linear interpolation.\<close>

definition quantile_linear :: "real list \<Rightarrow> real \<Rightarrow> real" where
  "quantile_linear a p = (let h = real (length a - 1) * p; lo = nat \<lfloor>h\<rfloor> in
     if lo + 1 < length a then a ! lo + (h - real lo) * (a ! (lo + 1) - a ! lo)
     else a ! (length a - 1))"

definition searchsorted_left :: "real list \<Rightarrow> real \<Rightarrow> nat" where
  "searchsorted_left bins x = length (takeWhile (\<lambda>b. b < x) bins)"

text \<open>
  \<open>_bins_to_cuts\<close> of pandas with \<open>right=True\<close>, \<open>include_lowest=True\<close>,
  \<open>duplicates='drop'\<close> and a list of labels: duplicate edges are dropped unless there
  are just two edges, the labels must be distinct and one fewer than the edges, a value
  equal to the lowest edge goes to the first bin.
\<close>

definition bins_to_cuts :: "float list \<Rightarrow> real list \<Rightarrow> label list \<Rightarrow> error + label option list" where
  "bins_to_cuts x bins0 labels =
     (let unique_bins = remdups bins0;
          bins = (if length unique_bins < length bins0 \<and> length bins0 \<noteq> 2
                  then unique_bins else bins0)
      in if \<not> distinct labels then Inl ValueError
         else if length labels \<noteq> length bins - 1 then Inl ValueError
         else Inr (map (\<lambda>v. case v of None \<Rightarrow> None
               | Some r \<Rightarrow>
                  (let ids = (if r = bins ! 0 then 1 else searchsorted_left bins r)
                   in if ids = length bins \<or> ids = 0 then None
                      else Some (labels ! (ids - 1)))) x))"

text \<open>
  \<open>pd.qcut(x, q, labels, duplicates='drop')\<close>. With no valid value every edge is NaN:
  the edges collapse to one unless there are at most two of them.
\<close>

definition qcut :: "float list \<Rightarrow> nat \<Rightarrow> label list \<Rightarrow> error + label option list" where
  "qcut x q labels =
     (let valid = dropna x in
      if valid = [] then
        (if q \<le> 1 \<and> distinct labels \<and> length labels = q then Inr (map (\<lambda>_. None) x)
         else Inl ValueError)
      else bins_to_cuts x (map (quantile_linear (sort valid)) (linspace01 q)) labels)"

definition quantile_labels :: "nat \<Rightarrow> label list" where
  "quantile_labels quantiles = map (\<lambda>i. Q (i + 1)) [0..<quantiles]"

text \<open>\<open>factor_quantiles.loc[dt] = cats\<close>: the row is assigned by column label.\<close>

definition set_row :: "('c, 'v) frame \<Rightarrow> date \<Rightarrow> 'v option list \<Rightarrow> ('c, 'v) frame" where
  "set_row f dt vs = f\<lparr>cell := (cell f)(dt := (\<lambda>c. case map_of (zip (columns f) vs) c of
       None \<Rightarrow> None | Some v \<Rightarrow> v))\<rparr>"

text \<open>The body of the loop over \<open>factor.index\<close> of \<open>calculate_factor_returns\<close>, on the
  frame of labels and the diagnostics printed so far, and the loop itself.\<close>

definition bucket_date :: "panel \<Rightarrow> nat \<Rightarrow> date \<Rightarrow>
    (instrument, label) frame \<times> diag list \<Rightarrow> (instrument, label) frame \<times> diag list" where
  "bucket_date factor quantiles dt st =
     (let factor_quantiles = fst st; out = snd st;
          row = loc_row factor dt;
          unique_valid_values = remdups (dropna row)
      in if length unique_valid_values \<ge> quantiles then
           (case qcut (rank_first row) quantiles (quantile_labels quantiles) of
              Inr cats \<Rightarrow> (set_row factor_quantiles dt cats, out)
            | Inl e \<Rightarrow> (factor_quantiles, out @ [GroupingError dt]))
         else (factor_quantiles, out @ [TooFewValues dt quantiles]))"

fun bucket_loop :: "panel \<Rightarrow> nat \<Rightarrow> date list \<Rightarrow>
    (instrument, label) frame \<times> diag list \<Rightarrow> (instrument, label) frame \<times> diag list" where
  "bucket_loop factor quantiles [] st = st"
| "bucket_loop factor quantiles (dt # dts) st =
     bucket_loop factor quantiles dts (bucket_date factor quantiles dt st)"

definition empty_frame :: "date list \<Rightarrow> 'c list \<Rightarrow> ('c, 'v) frame" where
  "empty_frame idx cols = \<lparr>index = idx, columns = cols, cell = (\<lambda>d c. None)\<rparr>"

definition bucket_all :: "panel \<Rightarrow> nat \<Rightarrow> (instrument, label) frame \<times> diag list" where
  "bucket_all factor quantiles =
     bucket_loop factor quantiles (index factor)
       (empty_frame (index factor) (columns factor), [])"

section \<open>Return aggregation\<close>

text \<open>Binary operations align both operands on the union of their labels: equal label
  lists are kept, otherwise the union is sorted.\<close>

definition align_labels :: "'a::linorder list \<Rightarrow> 'a list \<Rightarrow> 'a list" where
  "align_labels a b = (if a = b then a else sort (remdups (a @ b)))"

text \<open>\<open>factor_quantiles == q\<close>: a frame of booleans, false where the label is missing.\<close>

definition eq_mask :: "('c, label) frame \<Rightarrow> label \<Rightarrow> ('c, bool) frame" where
  "eq_mask fq q = \<lparr>index = index fq, columns = columns fq,
     cell = (\<lambda>d c. Some (cell fq d c = Some q))\<rparr>"

text \<open>\<open>self.returns * mask\<close>: a number times \<open>True\<close> is the number, times \<open>False\<close> is 0,
  and NaN where either side is missing.\<close>

definition mul_mask :: "panel \<Rightarrow> (instrument, bool) frame \<Rightarrow> panel" where
  "mul_mask r m = \<lparr>index = align_labels (index r) (index m),
     columns = align_labels (columns r) (columns m),
     cell = (\<lambda>d c. case (cell_at r d c, cell_at m d c) of
        (Some x, Some b) \<Rightarrow> Some (if b then x else 0)
      | _ \<Rightarrow> None)\<rparr>"

definition mean_axis1 :: "('c, real) frame \<Rightarrow> series" where
  "mean_axis1 f = \<lparr>s_index = index f, s_val = (\<lambda>d. nanmean (loc_row f d))\<rparr>"

definition s_at :: "series \<Rightarrow> date \<Rightarrow> float" where
  "s_at s d = (if d \<in> set (s_index s) then s_val s d else None)"

definition union_indexes :: "date list list \<Rightarrow> date list" where
  "union_indexes ixs = (case ixs of [] \<Rightarrow> [] | i # rest \<Rightarrow> fold (\<lambda>b a. align_labels a b) rest i)"

text \<open>\<open>pd.DataFrame(group_returns)\<close> from the dictionary of series, in insertion order.\<close>

definition frame_of_series :: "('c \<times> series) list \<Rightarrow> ('c, real) frame" where
  "frame_of_series gs = \<lparr>index = union_indexes (map (\<lambda>g. s_index (snd g)) gs),
     columns = map fst gs,
     cell = (\<lambda>d c. case map_of gs c of None \<Rightarrow> None | Some s \<Rightarrow> s_at s d)\<rparr>"

definition group_returns_table ::
    "panel \<Rightarrow> (instrument, label) frame \<Rightarrow> label list \<Rightarrow> (label, real) frame" where
  "group_returns_table rets factor_quantiles labels =
     frame_of_series (map (\<lambda>q. (q, mean_axis1 (mul_mask rets (eq_mask factor_quantiles q)))) labels)"

section \<open>Factor formulas\<close>

text \<open>
  The column-wise operations of pandas act by position along the date index.
  \<open>pct_change\<close> pads missing values forward before dividing (its default
  \<open>fill_method='pad'\<close>); \<open>rolling(window)\<close> needs \<open>window\<close> observations.
\<close>

definition position :: "date list \<Rightarrow> date \<Rightarrow> nat" where
  "position idx d = length (takeWhile (\<lambda>x. x \<noteq> d) idx)"

definition col_values :: "('c, 'v) frame \<Rightarrow> 'c \<Rightarrow> 'v option list" where
  "col_values f c = map (\<lambda>d. cell f d c) (index f)"

definition map_columns :: "(float list \<Rightarrow> float list) \<Rightarrow> ('c, real) frame \<Rightarrow> ('c, real) frame" where
  "map_columns g f = f\<lparr>cell := (\<lambda>d c. let ys = g (col_values f c); i = position (index f) d
      in if i < length ys then ys ! i else None)\<rparr>"

definition map_cells :: "(real \<Rightarrow> real) \<Rightarrow> ('c, real) frame \<Rightarrow> ('c, real) frame" where
  "map_cells g f = f\<lparr>cell := (\<lambda>d c. map_option g (cell f d c))\<rparr>"

definition binop_frames :: "(float \<Rightarrow> float \<Rightarrow> float) \<Rightarrow> panel \<Rightarrow> panel \<Rightarrow> panel" where
  "binop_frames f a b = \<lparr>index = align_labels (index a) (index b),
     columns = align_labels (columns a) (columns b),
     cell = (\<lambda>d c. f (cell_at a d c) (cell_at b d c))\<rparr>"

definition shift_list :: "int \<Rightarrow> float list \<Rightarrow> float list" where
  "shift_list n vs = (if 0 \<le> n then take (length vs) (replicate (nat n) None @ vs)
     else drop (nat (- n)) vs @ replicate (min (nat (- n)) (length vs)) None)"

fun ffill_from :: "float \<Rightarrow> float list \<Rightarrow> float list" where
  "ffill_from prev [] = []"
| "ffill_from prev (None # vs) = prev # ffill_from prev vs"
| "ffill_from prev (Some v # vs) = Some v # ffill_from (Some v) vs"

definition pct_change_list :: "nat \<Rightarrow> float list \<Rightarrow> float list" where
  "pct_change_list n vs = (let data = ffill_from None vs in
     map (\<lambda>(a, b). fsub (fdiv a b) (Some 1)) (zip data (shift_list (int n) data)))"

definition rolling_list :: "nat \<Rightarrow> (real list \<Rightarrow> float) \<Rightarrow> float list \<Rightarrow> float list" where
  "rolling_list w g vs = map (\<lambda>i. if i + 1 < w then None
       else let win = take w (drop (i + 1 - w) vs) in
         if length (dropna win) < w then None else g (dropna win))
     [0..<length vs]"

definition shift :: "int \<Rightarrow> panel \<Rightarrow> panel" where
  "shift n f = map_columns (shift_list n) f"

definition pct_change :: "nat \<Rightarrow> panel \<Rightarrow> panel" where
  "pct_change n f = map_columns (pct_change_list n) f"

definition price_reversal :: "panel \<Rightarrow> nat \<Rightarrow> panel" where
  "price_reversal prices window =
     (let rets = pct_change window prices; alpha = map_cells uminus rets in alpha)"

definition volume_price_ratio :: "panel \<Rightarrow> panel \<Rightarrow> nat \<Rightarrow> panel" where
  "volume_price_ratio prices volumes window =
     (let price_change = map_cells abs (pct_change 1 prices);
          volume_change = map_cells abs (pct_change 1 volumes);
          ratio = binop_frames fdiv volume_change (map_cells (\<lambda>x. x + 1 / 10 ^ 8) price_change);
          alpha = map_columns (rolling_list window (\<lambda>xs. nanmean (map Some xs))) ratio
      in alpha)"

text \<open>A comparison of two frames needs identical labels and is false on NaN.\<close>

definition compare_frames :: "(real \<Rightarrow> real \<Rightarrow> bool) \<Rightarrow> panel \<Rightarrow> panel \<Rightarrow> error + panel" where
  "compare_frames rel a b =
     (if index a \<noteq> index b \<or> columns a \<noteq> columns b then Inl ValueError
      else Inr \<lparr>index = index a, columns = columns a,
        cell = (\<lambda>d c. case (cell a d c, cell b d c) of
           (Some x, Some y) \<Rightarrow> Some (if rel x y then 1 else 0)
         | _ \<Rightarrow> Some 0)\<rparr>)"

definition volatility_breakout :: "panel \<Rightarrow> panel \<Rightarrow> panel \<Rightarrow> nat \<Rightarrow> error + panel" where
  "volatility_breakout high_prices low_prices close_prices window =
     (let volatility = map_columns (rolling_list window (\<lambda>xs. nanstd (map Some xs))) close_prices;
          upper_band = binop_frames fadd (shift 1 close_prices) (map_cells (\<lambda>x. 2 * x) volatility);
          lower_band = binop_frames fsub (shift 1 close_prices) (map_cells (\<lambda>x. 2 * x) volatility)
      in case compare_frames (\<lambda>x y. x > y) high_prices upper_band of
           Inl e \<Rightarrow> Inl e
         | Inr breakout_up \<Rightarrow>
            (case compare_frames (\<lambda>x y. x < y) low_prices lower_band of
               Inl e \<Rightarrow> Inl e
             | Inr lt \<Rightarrow>
                (let breakout_down = map_cells (\<lambda>x. x * (- 1)) lt;
                     alpha = binop_frames fadd breakout_up breakout_down
                 in Inr alpha)))"

text \<open>A dictionary is a list of pairs in insertion order; \<open>map_of\<close> reads a key.\<close>

definition calculate_all_factors :: "(string \<times> panel) list \<Rightarrow> error + (string \<times> panel) list" where
  "calculate_all_factors ohlcv =
     (case map_of ohlcv ''close'' of
        None \<Rightarrow> Inl (KeyError ''close'')
      | Some close_p \<Rightarrow>
         (let f1 = price_reversal close_p 5 in
          case map_of ohlcv ''volume'' of
            None \<Rightarrow> Inl (KeyError ''volume'')
          | Some volume_p \<Rightarrow>
             (let f2 = volume_price_ratio close_p volume_p 10 in
              case map_of ohlcv ''high'' of
                None \<Rightarrow> Inl (KeyError ''high'')
              | Some high_p \<Rightarrow>
                 (case map_of ohlcv ''low'' of
                    None \<Rightarrow> Inl (KeyError ''low'')
                  | Some low_p \<Rightarrow>
                     (case volatility_breakout high_p low_p close_p 20 of
                        Inl e \<Rightarrow> Inl e
                      | Inr f3 \<Rightarrow>
                         Inr [(''price_reversal'', f1), (''volume_price_ratio'', f2),
                              (''volatility_breakout'', f3)])))))"

section \<open>The backtest object\<close>

record backtest =
  ohlcv_data :: "(string \<times> panel) list"
  factors :: "(string \<times> panel) list"
  returns :: panel

text \<open>\<open>__init__\<close>: the forward returns come from the close panel as it is given.\<close>

definition init :: "(string \<times> panel) list \<Rightarrow> error + backtest" where
  "init ohlcv =
     (case map_of ohlcv ''close'' of
        None \<Rightarrow> Inl (KeyError ''close'')
      | Some close_p \<Rightarrow>
          Inr \<lparr>ohlcv_data = ohlcv, factors = [], returns = shift (- 1) (pct_change 1 close_p)\<rparr>)"

text \<open>\<open>df.loc[valid_dates]\<close> raises on a date that the frame does not have.\<close>

definition loc_dates :: "('c, 'v) frame \<Rightarrow> date list \<Rightarrow> error + ('c, 'v) frame" where
  "loc_dates df dates = (let missing = filter (\<lambda>d. d \<notin> set (index df)) dates in
     if missing \<noteq> [] then Inl (IndexKeyError missing) else Inr (df\<lparr>index := dates\<rparr>))"

fun filter_data :: "(string \<times> panel) list \<Rightarrow> date list \<Rightarrow> error + (string \<times> panel) list" where
  "filter_data [] dates = Inr []"
| "filter_data ((key, df) # rest) dates =
     (case loc_dates df dates of
        Inl e \<Rightarrow> Inl e
      | Inr df' \<Rightarrow>
         (case filter_data rest dates of
            Inl e \<Rightarrow> Inl e
          | Inr rest' \<Rightarrow> Inr ((key, df') # rest')))"

text \<open>
  \<open>non_na_count >= 0.8 * len(columns)\<close> compares an integer with a product that is exact
  whenever it is an integer, so it is \<open>4 * len(columns) \<le> 5 * non_na_count\<close>.
\<close>

definition enough_data :: "panel \<Rightarrow> date \<Rightarrow> bool" where
  "enough_data close_p date =
     (let non_na_count = length (dropna (loc_row close_p date))
      in 4 * length (columns close_p) \<le> 5 * non_na_count)"

definition calculate_factors :: "backtest \<Rightarrow> error + backtest" where
  "calculate_factors self =
     (case map_of (ohlcv_data self) ''close'' of
        None \<Rightarrow> Inl (KeyError ''close'')
      | Some close_p \<Rightarrow>
         (let valid_dates = filter (enough_data close_p) (index close_p) in
          case filter_data (ohlcv_data self) valid_dates of
            Inl e \<Rightarrow> Inl e
          | Inr filtered_data \<Rightarrow>
             (case calculate_all_factors filtered_data of
                Inl e \<Rightarrow> Inl e
              | Inr fs \<Rightarrow> Inr (self\<lparr>factors := fs\<rparr>))))"

text \<open>\<open>if not self.factors: self.calculate_factors()\<close>.\<close>

definition ensure_factors :: "backtest \<Rightarrow> error + backtest" where
  "ensure_factors self = (if factors self = [] then calculate_factors self else Inr self)"

section \<open>Bucket returns and the long-short series\<close>

definition calculate_factor_returns ::
    "backtest \<Rightarrow> string \<Rightarrow> nat \<Rightarrow> error + ((label, real) frame \<times> diag list \<times> backtest)" where
  "calculate_factor_returns self factor_name quantiles =
     (case ensure_factors self of
        Inl e \<Rightarrow> Inl e
      | Inr self' \<Rightarrow>
         (case map_of (factors self') factor_name of
            None \<Rightarrow> Inl (KeyError factor_name)
          | Some factor \<Rightarrow>
             (let (factor_quantiles, out) = bucket_all factor quantiles
              in Inr (group_returns_table (returns self') factor_quantiles
                        (quantile_labels quantiles), out, self'))))"

definition column :: "('c, real) frame \<Rightarrow> 'c \<Rightarrow> series" where
  "column f c = \<lparr>s_index = index f, s_val = (\<lambda>d. cell_at f d c)\<rparr>"

definition sub_series :: "series \<Rightarrow> series \<Rightarrow> series" where
  "sub_series a b = \<lparr>s_index = align_labels (s_index a) (s_index b),
     s_val = (\<lambda>d. fsub (s_at a d) (s_at b d))\<rparr>"

definition calculate_long_short_returns ::
    "backtest \<Rightarrow> string \<Rightarrow> nat \<Rightarrow> error + (series \<times> diag list \<times> backtest)" where
  "calculate_long_short_returns self factor_name quantiles =
     (case calculate_factor_returns self factor_name quantiles of
        Inl e \<Rightarrow> Inl e
      | Inr (group_returns, out, self') \<Rightarrow>
          if Q quantiles \<in> set (columns group_returns) \<and> Q 1 \<in> set (columns group_returns)
          then Inr (sub_series (column group_returns (Q quantiles)) (column group_returns (Q 1)),
                    out, self')
          else Inr (\<lparr>s_index = index (returns self'), s_val = (\<lambda>d. None)\<rparr>,
                    out @ [NoGrouping factor_name], self'))"

section \<open>Rank correlation\<close>

text \<open>
  \<open>Series.corr(method='spearman')\<close>: the Pearson correlation of the average ranks, NaN
  with fewer than two observations or when either side has no variance.
\<close>

definition rank_average :: "real list \<Rightarrow> real list" where
  "rank_average xs = map (\<lambda>x. real (length (filter (\<lambda>w. w < x) xs))
       + (real (length (filter (\<lambda>w. w = x) xs)) + 1) / 2) xs"

definition pearson :: "real list \<Rightarrow> real list \<Rightarrow> float" where
  "pearson xs ys =
     (let n = real (length xs);
          mx = sum_list xs / n; my = sum_list ys / n;
          sxy = sum_list (map (\<lambda>(x, y). (x - mx) * (y - my)) (zip xs ys));
          sxx = sum_list (map (\<lambda>x. (x - mx)\<^sup>2) xs);
          syy = sum_list (map (\<lambda>y. (y - my)\<^sup>2) ys)
      in if sxx = 0 \<or> syy = 0 then None else Some (sxy / (sqrt sxx * sqrt syy)))"

definition spearman :: "(real \<times> real) list \<Rightarrow> float" where
  "spearman ps = (if length ps \<le> 1 then None
     else pearson (rank_average (map fst ps)) (rank_average (map snd ps)))"

text \<open>The instruments with both values present at a date, as pairs (factor, return).\<close>

definition valid_pairs :: "panel \<Rightarrow> panel \<Rightarrow> date \<Rightarrow> (real \<times> real) list" where
  "valid_pairs factor rets dt =
     concat (map (\<lambda>c. case (cell_at factor dt c, cell_at rets dt c) of
         (Some x, Some y) \<Rightarrow> [(x, y)]
       | _ \<Rightarrow> [])
       (align_labels (columns factor) (columns rets)))"

fun ic_loop :: "panel \<Rightarrow> panel \<Rightarrow> date list \<Rightarrow> (date \<Rightarrow> float) \<Rightarrow> (date \<Rightarrow> float)" where
  "ic_loop factor rets [] ic = ic"
| "ic_loop factor rets (dt # dts) ic =
     (if dt \<in> set (index rets) then
        (let ps = valid_pairs factor rets dt in
         if length ps > 0 then ic_loop factor rets dts (ic(dt := spearman ps))
         else ic_loop factor rets dts ic)
      else ic_loop factor rets dts ic)"

definition calculate_factor_ic :: "backtest \<Rightarrow> string \<Rightarrow> error + (series \<times> backtest)" where
  "calculate_factor_ic self factor_name =
     (case ensure_factors self of
        Inl e \<Rightarrow> Inl e
      | Inr self' \<Rightarrow>
         (case map_of (factors self') factor_name of
            None \<Rightarrow> Inl (KeyError factor_name)
          | Some factor \<Rightarrow>
              Inr (\<lparr>s_index = index factor,
                    s_val = ic_loop factor (returns self') (index factor) (\<lambda>d. None)\<rparr>, self')))"

section \<open>Cross-factor correlation\<close>

record corr_matrix =
  cm_names :: "string list"
  cm_entry :: "string \<Rightarrow> string \<Rightarrow> float"

text \<open>\<open>factor.stack()\<close>: the non-missing cells in long format.\<close>

definition stacked :: "panel \<Rightarrow> ((date \<times> instrument) \<times> real) list" where
  "stacked f = concat (map (\<lambda>d. concat (map (\<lambda>c. case cell f d c of
       None \<Rightarrow> [] | Some v \<Rightarrow> [((d, c), v)]) (columns f))) (index f))"

text \<open>The pivot has one column per factor with a value, in sorted order; the correlation
  of two columns is over the rows where both have a value. \<open>pd.concat\<close> of no frame raises.\<close>

definition calculate_factor_correlation :: "backtest \<Rightarrow> error + (corr_matrix \<times> backtest)" where
  "calculate_factor_correlation self =
     (case ensure_factors self of
        Inl e \<Rightarrow> Inl e
      | Inr self' \<Rightarrow>
          if factors self' = [] then Inl ValueError
          else Inr (\<lparr>cm_names = sort (remdups (map fst
                        (filter (\<lambda>(name, f). stacked f \<noteq> []) (factors self')))),
                     cm_entry = (\<lambda>a b. case (map_of (factors self') a, map_of (factors self') b) of
                        (Some fa, Some fb) \<Rightarrow>
                          (let ps = concat (map (\<lambda>((d, c), x). case cell_at fb d c of
                                None \<Rightarrow> [] | Some y \<Rightarrow> [(x, y)]) (stacked fa))
                           in pearson (map fst ps) (map snd ps))
                      | _ \<Rightarrow> None)\<rparr>, self'))"

section \<open>Evaluation of all factors\<close>

record factor_result =
  sharpe_ratio :: float
  mean_ic :: float
  ic_ir :: float
  fr_returns :: series

text \<open>The values of the results dictionary: a dictionary per factor, the correlation
  matrix, and the average Sharpe ratio.\<close>

datatype result_value = FactorStats factor_result | Matrix corr_matrix | Number float

fun dict_set :: "('k \<times> 'v) list \<Rightarrow> 'k \<Rightarrow> 'v \<Rightarrow> ('k \<times> 'v) list" where
  "dict_set [] k v = [(k, v)]"
| "dict_set ((k', v') # rest) k v =
     (if k' = k then (k, v) # rest else (k', v') # dict_set rest k v)"

text \<open>\<open>long_short_returns.empty or long_short_returns.isna().all()\<close>.\<close>

definition empty_or_all_na :: "series \<Rightarrow> bool" where
  "empty_or_all_na s = (s_index s = [] \<or> list_all (\<lambda>v. v = None) (s_values s))"

fun evaluate_loop :: "backtest \<Rightarrow> nat \<Rightarrow> string list \<Rightarrow>
    (string \<times> result_value) list \<times> diag list \<Rightarrow>
    error + ((string \<times> result_value) list \<times> diag list \<times> backtest)" where
  "evaluate_loop self quantiles [] (results, out) = Inr (results, out, self)"
| "evaluate_loop self quantiles (name # names) (results, out) =
     (case calculate_long_short_returns self name quantiles of
        Inl e \<Rightarrow> Inl e
      | Inr (long_short_returns, out1, self1) \<Rightarrow>
          if empty_or_all_na long_short_returns then
            evaluate_loop self1 quantiles names (results, out @ out1 @ [EmptyLongShort name])
          else
            (let sharpe = calculate_sharpe_ratio long_short_returns 252 in
             case calculate_factor_ic self1 name of
               Inl e \<Rightarrow> Inl e
             | Inr (ic_series, self2) \<Rightarrow>
                 evaluate_loop self2 quantiles names
                   (dict_set results name (FactorStats
                      \<lparr>sharpe_ratio = sharpe,
                       mean_ic = smean ic_series,
                       ic_ir = (if sstd ic_series \<noteq> Some 0
                                then fdiv (smean ic_series) (sstd ic_series) else Some 0),
                       fr_returns = long_short_returns\<rparr>),
                    out @ out1)))"

fun sharpe_of :: "result_value \<Rightarrow> float list" where
  "sharpe_of (FactorStats r) = [sharpe_ratio r]"
| "sharpe_of _ = []"

text \<open>\<open>np.mean\<close> of a non-empty list does not skip NaN.\<close>

definition np_mean :: "float list \<Rightarrow> float" where
  "np_mean xs = (if list_ex (\<lambda>x. x = None) xs then None
     else Some (sum_list (dropna xs) / real (length xs)))"

definition evaluate_all_factors ::
    "backtest \<Rightarrow> nat \<Rightarrow> error + ((string \<times> result_value) list \<times> diag list \<times> backtest)" where
  "evaluate_all_factors self quantiles =
     (case ensure_factors self of
        Inl e \<Rightarrow> Inl e
      | Inr self0 \<Rightarrow>
         (case evaluate_loop self0 quantiles (map fst (factors self0)) ([], []) of
            Inl e \<Rightarrow> Inl e
          | Inr (results, out, self1) \<Rightarrow>
             (case calculate_factor_correlation self1 of
                Inl e \<Rightarrow> Inl e
              | Inr (correlation_matrix, self2) \<Rightarrow>
                 (let results1 = dict_set results ''correlation_matrix'' (Matrix correlation_matrix);
                      sharpe_ratios = concat (map (\<lambda>kv. sharpe_of (snd kv)) results1);
                      results2 = dict_set results1 ''average_sharpe''
                         (Number (if sharpe_ratios \<noteq> [] then np_mean sharpe_ratios else Some 0))
                  in Inr (results2, out, self2)))))"

section \<open>Example inputs\<close>

text \<open>A frame from its rows, one list of cells per date.\<close>

definition mk_frame :: "date list \<Rightarrow> 'c list \<Rightarrow> 'v option list list \<Rightarrow> ('c, 'v) frame" where
  "mk_frame idx cols rows = \<lparr>index = idx, columns = cols,
     cell = (\<lambda>d c. case map_of (zip idx rows) d of
        None \<Rightarrow> None
      | Some row \<Rightarrow> (case map_of (zip cols row) c of None \<Rightarrow> None | Some v \<Rightarrow> v))\<rparr>"



text \<open>Three instruments on four dates; on the last date all factor values are equal.\<close>

definition ex_factor :: panel where
  "ex_factor = mk_frame [1, 2, 3, 4] [''A'', ''B'', ''C'']
     [[Some 1, Some 2, Some 3], [Some 1, Some 2, Some 3],
      [Some 3, Some 2, Some 1], [Some 2, Some 2, Some 2]]"

definition ex_returns :: panel where
  "ex_returns = mk_frame [1, 2, 3, 4] [''A'', ''B'', ''C'']
     [[Some (3 / 100), Some (6 / 100), Some (9 / 100)], [Some (3 / 100), Some (6 / 100), Some (9 / 100)],
      [Some (3 / 100), Some (6 / 100), Some (9 / 100)], [Some (3 / 100), Some (6 / 100), Some (9 / 100)]]"

definition ex_backtest :: backtest where
  "ex_backtest = \<lparr>ohlcv_data = [], factors = [(''f'', ex_factor)], returns = ex_returns\<rparr>"

text \<open>A factor that is constant across instruments on every date.\<close>

definition ex_const_factor :: panel where
  "ex_const_factor = mk_frame [1, 2, 3, 4] [''A'', ''B'', ''C'']
     [[Some 2, Some 2, Some 2], [Some 2, Some 2, Some 2],
      [Some 2, Some 2, Some 2], [Some 2, Some 2, Some 2]]"

definition ex_backtest2 :: backtest where
  "ex_backtest2 = \<lparr>ohlcv_data = [], factors = [(''f'', ex_factor), (''c'', ex_const_factor)],
     returns = ex_returns\<rparr>"

text \<open>Returns with a single observation on the last date.\<close>

definition ex_returns_gap :: panel where
  "ex_returns_gap = mk_frame [1, 2, 3, 4] [''A'', ''B'', ''C'']
     [[Some (3 / 100), Some (6 / 100), Some (9 / 100)], [Some (3 / 100), Some (6 / 100), Some (9 / 100)],
      [Some (3 / 100), Some (6 / 100), Some (9 / 100)], [None, Some (3 / 100), None]]"

definition ex_backtest_gap :: backtest where
  "ex_backtest_gap = \<lparr>ohlcv_data = [], factors = [(''f'', ex_factor)], returns = ex_returns_gap\<rparr>"

text \<open>Price and volume panels of one instrument on two dates, without an \<open>open\<close> panel;
  the close price of the second date is missing.\<close>

definition ex_close :: panel where
  "ex_close = mk_frame [1, 2] [''A''] [[Some 10], [None]]"

definition ex_high :: panel where
  "ex_high = mk_frame [1, 2] [''A''] [[Some 11], [Some 12]]"

definition ex_low :: panel where
  "ex_low = mk_frame [1, 2] [''A''] [[Some 9], [Some 8]]"

definition ex_volume :: panel where
  "ex_volume = mk_frame [1, 2] [''A''] [[Some 1000], [Some 2000]]"

definition ex_ohlcv_no_open :: "(string \<times> panel) list" where
  "ex_ohlcv_no_open =
     [(''high'', ex_high), (''low'', ex_low), (''close'', ex_close), (''volume'', ex_volume)]"

definition ex_ohlcv_no_volume :: "(string \<times> panel) list" where
  "ex_ohlcv_no_volume = [(''high'', ex_high), (''low'', ex_low), (''close'', ex_close)]"

text \<open>The first of the keys \<open>volume\<close>, \<open>high\<close>, \<open>low\<close> that a dictionary lacks, in the order in
  which \<open>calculate_all_factors\<close> reads them.\<close>

definition first_missing :: "(string \<times> panel) list \<Rightarrow> string" where
  "first_missing ohlcv =
     (if map_of ohlcv ''volume'' = None then ''volume''
      else if map_of ohlcv ''high'' = None then ''high'' else ''low'')"

text \<open>The backtest objects that \<open>__init__\<close> builds from the example dictionaries.\<close>

definition ex_b_open :: backtest where
  "ex_b_open = \<lparr>ohlcv_data = ex_ohlcv_no_open, factors = [],
      returns = shift (- 1) (pct_change 1 ex_close)\<rparr>"

definition ex_b_volume :: backtest where
  "ex_b_volume = \<lparr>ohlcv_data = ex_ohlcv_no_volume, factors = [],
      returns = shift (- 1) (pct_change 1 ex_close)\<rparr>"

text \<open>
  Notions used to state the properties of the bucketing. \<open>valid_pos\<close> are the positions
  of a row with a value; \<open>before vs i\<close> are the positions ranked before position \<open>i\<close>
  by \<open>rank(method='first')\<close>: a smaller value, or an equal value at an earlier position;
  \<open>rank_bins n k\<close> are the quantile edges of the ranks \<open>1, \<dots>, n\<close>; \<open>bucket_no n k t\<close> is
  the number of the bucket of the rank \<open>t + 1\<close> among \<open>n\<close> ranks cut into \<open>k\<close> buckets;
  \<open>bucket_size\<close> counts the instruments that hold a label on a date.
\<close>

definition valid_pos :: "float list \<Rightarrow> nat set" where
  "valid_pos vs = {j. j < length vs \<and> vs ! j \<noteq> None}"

definition before :: "float list \<Rightarrow> nat \<Rightarrow> nat set" where
  "before vs i = {j. j < length vs \<and> (\<exists>w. vs ! j = Some w \<and>
      (w < the (vs ! i) \<or> (w = the (vs ! i) \<and> j < i)))}"





section \<open>Properties of the performance summary\<close>






section \<open>Properties of the bucketing loop\<close>

lemma bucket_date_columns [simp]: "columns (fst (bucket_date f k d st)) = columns (fst st)"
  by (simp add: bucket_date_def Let_def set_row_def split: sum.splits)

lemma bucket_date_index [simp]: "index (fst (bucket_date f k d st)) = index (fst st)"
  by (simp add: bucket_date_def Let_def set_row_def split: sum.splits)

lemma bucket_date_other: "d' \<noteq> d \<Longrightarrow> cell (fst (bucket_date f k d st)) d' = cell (fst st) d'"
  by (simp add: bucket_date_def Let_def set_row_def split: sum.splits)

lemma bucket_date_cong:
  "columns (fst st1) = columns (fst st2) \<Longrightarrow> cell (fst st1) d = cell (fst st2) d \<Longrightarrow>
   cell (fst (bucket_date f k d st1)) d = cell (fst (bucket_date f k d st2)) d"
  by (simp add: bucket_date_def Let_def set_row_def split: sum.splits)

lemma bucket_date_idem:
  "cell (fst (bucket_date f k d (bucket_date f k d st))) d = cell (fst (bucket_date f k d st)) d"
  by (simp add: bucket_date_def Let_def set_row_def split: sum.splits)

lemma bucket_loop_columns [simp]: "columns (fst (bucket_loop f k dts st)) = columns (fst st)"
  by (induction dts arbitrary: st) simp_all

lemma bucket_loop_index [simp]: "index (fst (bucket_loop f k dts st)) = index (fst st)"
  by (induction dts arbitrary: st) simp_all

lemma bucket_loop_cell:
  "cell (fst (bucket_loop f k dts st)) d =
     (if d \<in> set dts then cell (fst (bucket_date f k d st)) d else cell (fst st) d)"
proof (induction dts arbitrary: st)
  case Nil
  show ?case by simp
next
  case (Cons a dts)
  show ?case
  proof (cases "d = a")
    case True
    then show ?thesis
      using Cons.IH [of "bucket_date f k a st"] by (simp add: bucket_date_idem)
  next
    case False
    have "cell (fst (bucket_date f k d (bucket_date f k a st))) d = cell (fst (bucket_date f k d st)) d"
      by (rule bucket_date_cong) (simp_all add: bucket_date_other False)
    then show ?thesis
      using Cons.IH [of "bucket_date f k a st"] False by (simp add: bucket_date_other)
  qed
qed

lemma bucket_date_out_mono: "set (snd st) \<subseteq> set (snd (bucket_date f k d st))"
  by (auto simp add: bucket_date_def Let_def split: sum.splits)

lemma bucket_loop_out_mono: "set (snd st) \<subseteq> set (snd (bucket_loop f k dts st))"
proof (induction dts arbitrary: st)
  case Nil
  show ?case by simp
next
  case (Cons a dts)
  show ?case
    using Cons.IH [of "bucket_date f k a st"] bucket_date_out_mono [of st f k a] by auto
qed

lemma bucket_loop_skip_logged:
  "dt \<in> set dts \<Longrightarrow> length (remdups (dropna (loc_row f dt))) < k \<Longrightarrow>
   TooFewValues dt k \<in> set (snd (bucket_loop f k dts st))"
proof (induction dts arbitrary: st)
  case Nil
  then show ?case by simp
next
  case (Cons a dts)
  show ?case
  proof (cases "a = dt")
    case True
    have "TooFewValues dt k \<in> set (snd (bucket_date f k dt st))"
      using Cons.prems(2) by (simp add: bucket_date_def Let_def)
    then show ?thesis
      using bucket_loop_out_mono [of "bucket_date f k dt st" f k dts] True by auto
  next
    case False
    then show ?thesis using Cons by simp
  qed
qed

lemma bucket_date_skip_cell:
  "length (remdups (dropna (loc_row f dt))) < k \<Longrightarrow> fst (bucket_date f k dt st) = fst st"
  by (simp add: bucket_date_def Let_def)

text \<open>
  C4. On a date of the factor's index with fewer distinct non-missing factor values than
  the quantile count \<open>k\<close>, no instrument gets a label, the skip is printed as a
  diagnostic, \<open>calculate_factor_returns\<close> still returns its table, and every date's labels
  are those of the loop body run on that date alone, so the other dates are bucketed as
  if the skipped date were not there.
\<close>

theorem too_few_values_date_skipped:
  assumes "factors self \<noteq> []" and "map_of (factors self) name = Some factor"
    and "dt \<in> set (index factor)" and "length (remdups (dropna (loc_row factor dt))) < k"
  shows "(\<exists>g. calculate_factor_returns self name k = Inr (g, snd (bucket_all factor k), self))
     \<and> (\<forall>c. cell (fst (bucket_all factor k)) dt c = None)
     \<and> TooFewValues dt k \<in> set (snd (bucket_all factor k))
     \<and> (\<forall>d\<in>set (index factor). cell (fst (bucket_all factor k)) d =
           cell (fst (bucket_date factor k d (empty_frame (index factor) (columns factor), []))) d)"
proof (intro conjI)
  show "\<exists>g. calculate_factor_returns self name k = Inr (g, snd (bucket_all factor k), self)"
    using assms(1,2)
    by (simp add: calculate_factor_returns_def ensure_factors_def split_beta)
  show "\<forall>c. cell (fst (bucket_all factor k)) dt c = None"
    using assms(3,4)
    by (simp add: bucket_all_def bucket_loop_cell bucket_date_skip_cell empty_frame_def)
  show "TooFewValues dt k \<in> set (snd (bucket_all factor k))"
    using assms(3,4) by (simp add: bucket_all_def bucket_loop_skip_logged)
  show "\<forall>d\<in>set (index factor). cell (fst (bucket_all factor k)) d =
           cell (fst (bucket_date factor k d (empty_frame (index factor) (columns factor), []))) d"
    by (simp add: bucket_all_def bucket_loop_cell)
qed

theorem too_few_values_date_skipped_witness:
  "factors ex_backtest \<noteq> [] \<and> map_of (factors ex_backtest) ''f'' = Some ex_factor
   \<and> 4 \<in> set (index ex_factor) \<and> length (remdups (dropna (loc_row ex_factor 4))) < 3
   \<and> TooFewValues 4 3 \<in> set (snd (bucket_all ex_factor 3))
   \<and> cell (fst (bucket_all ex_factor 3)) 4 ''A'' = None
   \<and> cell (fst (bucket_all ex_factor 3)) 1 ''A'' = Some (Q 1)"
proof -
  have h1: "factors ex_backtest \<noteq> []" by (simp add: ex_backtest_def)
  have h2: "map_of (factors ex_backtest) ''f'' = Some ex_factor" by (simp add: ex_backtest_def)
  have h3: "4 \<in> set (index ex_factor)" by (simp add: ex_factor_def mk_frame_def)
  have h4: "length (remdups (dropna (loc_row ex_factor 4))) < 3" by code_simp
  have h5: "cell (fst (bucket_all ex_factor 3)) 1 ''A'' = Some (Q 1)" by code_simp
  show ?thesis
    using too_few_values_date_skipped [OF h1 h2 h3 h4] h1 h2 h3 h4 h5 by blast
qed

section \<open>Properties of the grouped-return table and the long-short series\<close>

lemma set_align_labels [simp]: "set (align_labels a b) = set a \<union> set b"
  by (auto simp add: align_labels_def)

lemma align_labels_same [simp]: "align_labels a a = a"
  by (simp add: align_labels_def)

lemma fold_align_same: "fold (\<lambda>b a. align_labels a b) (map (\<lambda>_. X) xs) X = X"
  by (induction xs) simp_all

lemma group_returns_table_columns [simp]: "columns (group_returns_table r fq labels) = labels"
  by (simp add: group_returns_table_def frame_of_series_def comp_def)

lemma group_returns_table_index:
  "index (group_returns_table r fq labels) =
     (if labels = [] then [] else align_labels (index r) (index fq))"
proof (cases labels)
  case Nil
  then show ?thesis
    by (simp add: group_returns_table_def frame_of_series_def union_indexes_def)
next
  case (Cons q qs)
  then show ?thesis
    by (simp add: group_returns_table_def frame_of_series_def union_indexes_def comp_def
        mean_axis1_def mul_mask_def eq_mask_def fold_align_same)
qed

lemma quantile_labels_upt: "quantile_labels k = map Q [1..<k + 1]"
proof -
  have "map (\<lambda>i. Q (i + 1)) [0..<k] = map Q (map Suc [0..<k])" by simp
  also have "map Suc [0..<k] = [1..<k + 1]" by (simp only: map_Suc_upt) simp
  finally show ?thesis by (simp add: quantile_labels_def)
qed

lemma bucket_date_out_kind:
  "x \<in> set (snd (bucket_date f k d st)) \<Longrightarrow>
     x \<in> set (snd st) \<or> x = GroupingError d \<or> x = TooFewValues d k"
  by (auto simp add: bucket_date_def Let_def split: sum.splits if_splits)

lemma bucket_loop_out_kind:
  "x \<in> set (snd (bucket_loop f k dts st)) \<Longrightarrow>
     x \<in> set (snd st) \<or> (\<exists>d. x = GroupingError d \<or> x = TooFewValues d k)"
proof (induction dts arbitrary: st)
  case Nil
  then show ?case by simp
next
  case (Cons a dts)
  from Cons.prems have "x \<in> set (snd (bucket_loop f k dts (bucket_date f k a st)))" by simp
  from Cons.IH [OF this] show ?case
    using bucket_date_out_kind [of x f k a st] by blast
qed

lemma bucket_all_no_grouping_diag: "NoGrouping name \<notin> set (snd (bucket_all f k))"
  using bucket_loop_out_kind [of "NoGrouping name" f k "index f" "(empty_frame (index f) (columns f), [])"]
  by (auto simp add: bucket_all_def)

lemma bucket_all_index [simp]: "index (fst (bucket_all f k)) = index f"
  by (simp add: bucket_all_def empty_frame_def)

lemma bucket_all_columns [simp]: "columns (fst (bucket_all f k)) = columns f"
  by (simp add: bucket_all_def empty_frame_def)

text \<open>
  C9. For a factor of the backtest and a quantile count \<open>k \<ge> 1\<close>, the table returned by
  \<open>calculate_factor_returns\<close> has exactly the columns \<open>Q 1, \<dots>, Q k\<close>; its date index is the
  aligned union of the return dates and the factor's dates, so it covers the factor's full
  date index, whatever dates were skipped. Hence \<open>calculate_long_short_returns\<close> takes the
  branch that subtracts column \<open>Q 1\<close> from column \<open>Q k\<close>, and the diagnostic of its other
  branch is never printed.
\<close>

theorem grouped_table_has_all_columns:
  assumes "ensure_factors self = Inr self'" and "map_of (factors self') name = Some factor"
    and "1 \<le> k"
  shows "\<exists>g out. calculate_factor_returns self name k = Inr (g, out, self')
     \<and> columns g = map Q [1..<k + 1]
     \<and> index g = align_labels (index (returns self')) (index factor)
     \<and> set (index factor) \<subseteq> set (index g)
     \<and> calculate_long_short_returns self name k =
         Inr (sub_series (column g (Q k)) (column g (Q 1)), out, self')
     \<and> NoGrouping name \<notin> set out"
proof -
  define g where "g = group_returns_table (returns self') (fst (bucket_all factor k)) (quantile_labels k)"
  define out where "out = snd (bucket_all factor k)"
  have ne: "quantile_labels k \<noteq> []"
    using assms(3) by (simp add: quantile_labels_def)
  have r: "calculate_factor_returns self name k = Inr (g, out, self')"
    using assms(1,2) by (simp add: calculate_factor_returns_def split_beta g_def out_def)
  have c: "columns g = map Q [1..<k + 1]"
    by (simp add: g_def quantile_labels_upt)
  have i: "index g = align_labels (index (returns self')) (index factor)"
    using ne by (simp add: g_def group_returns_table_index)
  have m: "Q k \<in> set (columns g) \<and> Q 1 \<in> set (columns g)"
    using assms(3) by (auto simp add: c)
  have l: "calculate_long_short_returns self name k =
         Inr (sub_series (column g (Q k)) (column g (Q 1)), out, self')"
    using m by (simp add: calculate_long_short_returns_def r)
  have n: "NoGrouping name \<notin> set out"
    by (simp add: out_def bucket_all_no_grouping_diag)
  show ?thesis
    using r c i l n by (intro exI [of _ g] exI [of _ out]) simp
qed

theorem grouped_table_has_all_columns_witness:
  "ensure_factors ex_backtest2 = Inr ex_backtest2
   \<and> map_of (factors ex_backtest2) ''c'' = Some ex_const_factor \<and> (1::nat) \<le> 3
   \<and> snd (bucket_all ex_const_factor 3) =
        [TooFewValues 1 3, TooFewValues 2 3, TooFewValues 3 3, TooFewValues 4 3]
   \<and> (\<exists>g out. calculate_factor_returns ex_backtest2 ''c'' 3 = Inr (g, out, ex_backtest2)
        \<and> columns g = [Q 1, Q 2, Q 3]
        \<and> calculate_long_short_returns ex_backtest2 ''c'' 3 =
            Inr (sub_series (column g (Q 3)) (column g (Q 1)), out, ex_backtest2))"
proof -
  have h1: "ensure_factors ex_backtest2 = Inr ex_backtest2"
    by (simp add: ensure_factors_def ex_backtest2_def)
  have h2: "map_of (factors ex_backtest2) ''c'' = Some ex_const_factor"
    by (simp add: ex_backtest2_def)
  have h3: "(1::nat) \<le> 3" by simp
  have h4: "snd (bucket_all ex_const_factor 3) =
        [TooFewValues 1 3, TooFewValues 2 3, TooFewValues 3 3, TooFewValues 4 3]"
    by code_simp
  have u: "map Q [1..<3 + 1] = [Q 1, Q 2, Q 3]" by code_simp
  show ?thesis
    using grouped_table_has_all_columns [OF h1 h2 h3] h1 h2 h4 unfolding u by auto
qed

lemma s_at_column [simp]: "s_at (column g c) d = cell_at g d c"
  by (simp add: s_at_def column_def cell_at_def)

lemma s_at_sub_series [simp]:
  "s_at (sub_series a b) d = fsub (s_at a d) (s_at b d)"
  by (auto simp add: s_at_def sub_series_def)




section \<open>Properties of the IC series\<close>

lemma ic_loop_value:
  "ic_loop f r dts ic d =
     (if d \<in> set dts \<and> d \<in> set (index r) \<and> valid_pairs f r d \<noteq> []
      then spearman (valid_pairs f r d) else ic d)"
  by (induction dts arbitrary: ic) (auto simp add: Let_def)

lemma spearman_short: "length ps < 2 \<Longrightarrow> spearman ps = None"
  by (simp add: spearman_def)

text \<open>
  C6. For a factor of the backtest, \<open>calculate_factor_ic\<close> returns a series over the factor's
  dates. At each date that is also a date of the forward-return panel its value is the
  Spearman rank correlation of the pairs (factor value, forward return) of exactly the
  instruments with both values present at that date; it is missing at every date with
  fewer than two such pairs, and at every date that the return panel does not have.
\<close>

theorem ic_series_is_spearman_of_valid_pairs:
  assumes "ensure_factors self = Inr self'" and "map_of (factors self') name = Some factor"
  shows "\<exists>ic. calculate_factor_ic self name = Inr (ic, self') \<and> s_index ic = index factor
     \<and> (\<forall>d\<in>set (index factor). d \<in> set (index (returns self')) \<longrightarrow>
           s_at ic d = spearman (valid_pairs factor (returns self') d))
     \<and> (\<forall>d. length (valid_pairs factor (returns self') d) < 2 \<longrightarrow> s_at ic d = None)
     \<and> (\<forall>d. d \<notin> set (index (returns self')) \<longrightarrow> s_at ic d = None)"
proof -
  define ic where "ic = \<lparr>s_index = index factor,
      s_val = ic_loop factor (returns self') (index factor) (\<lambda>d. None)\<rparr>"
  have r: "calculate_factor_ic self name = Inr (ic, self')"
    using assms by (simp add: calculate_factor_ic_def ic_def)
  have v: "s_at ic d = (if d \<in> set (index factor) \<and> d \<in> set (index (returns self'))
        \<and> valid_pairs factor (returns self') d \<noteq> []
      then spearman (valid_pairs factor (returns self') d) else None)" for d
    by (simp add: s_at_def ic_def ic_loop_value)
  have e: "spearman [] = None" by (simp add: spearman_def)
  have a: "\<forall>d\<in>set (index factor). d \<in> set (index (returns self')) \<longrightarrow>
           s_at ic d = spearman (valid_pairs factor (returns self') d)"
    using e by (simp add: v)
  have b: "\<forall>d. length (valid_pairs factor (returns self') d) < 2 \<longrightarrow> s_at ic d = None"
    by (simp add: v spearman_short)
  have c: "\<forall>d. d \<notin> set (index (returns self')) \<longrightarrow> s_at ic d = None"
    by (simp add: v)
  have i: "s_index ic = index factor" by (simp add: ic_def)
  show ?thesis using r i a b c by blast
qed

theorem ic_series_is_spearman_of_valid_pairs_witness:
  "ensure_factors ex_backtest_gap = Inr ex_backtest_gap
   \<and> map_of (factors ex_backtest_gap) ''f'' = Some ex_factor
   \<and> valid_pairs ex_factor ex_returns_gap 1 = [(1, 3 / 100), (2, 6 / 100), (3, 9 / 100)]
   \<and> valid_pairs ex_factor ex_returns_gap 4 = [(2, 3 / 100)]
   \<and> (\<exists>ic. calculate_factor_ic ex_backtest_gap ''f'' = Inr (ic, ex_backtest_gap)
        \<and> s_at ic 1 = spearman [(1, 3 / 100), (2, 6 / 100), (3, 9 / 100)]
        \<and> s_at ic 4 = None)"
proof -
  have h1: "ensure_factors ex_backtest_gap = Inr ex_backtest_gap"
    by (simp add: ensure_factors_def ex_backtest_gap_def)
  have h2: "map_of (factors ex_backtest_gap) ''f'' = Some ex_factor"
    by (simp add: ex_backtest_gap_def)
  have p1: "valid_pairs ex_factor ex_returns_gap 1 = [(1, 3 / 100), (2, 6 / 100), (3, 9 / 100)]"
    by code_simp
  have p4: "valid_pairs ex_factor ex_returns_gap 4 = [(2, 3 / 100)]"
    by code_simp
  have i1: "1 \<in> set (index ex_factor)" "1 \<in> set (index (returns ex_backtest_gap))"
    by (simp_all add: ex_factor_def ex_backtest_gap_def ex_returns_gap_def mk_frame_def)
  have r: "returns ex_backtest_gap = ex_returns_gap" by (simp add: ex_backtest_gap_def)
  from ic_series_is_spearman_of_valid_pairs [OF h1 h2]
  obtain ic where ic: "calculate_factor_ic ex_backtest_gap ''f'' = Inr (ic, ex_backtest_gap)"
    and a: "\<forall>d\<in>set (index ex_factor). d \<in> set (index (returns ex_backtest_gap)) \<longrightarrow>
           s_at ic d = spearman (valid_pairs ex_factor (returns ex_backtest_gap) d)"
    and b: "\<forall>d. length (valid_pairs ex_factor (returns ex_backtest_gap) d) < 2 \<longrightarrow> s_at ic d = None"
    by blast
  have "s_at ic 1 = spearman (valid_pairs ex_factor (returns ex_backtest_gap) 1)"
    using a i1 by blast
  then have v1: "s_at ic 1 = spearman [(1, 3 / 100), (2, 6 / 100), (3, 9 / 100)]"
    unfolding r p1 .
  have "length (valid_pairs ex_factor (returns ex_backtest_gap) 4) < 2"
    unfolding r p4 by simp
  then have v4: "s_at ic 4 = None"
    using b by blast
  show ?thesis using h1 h2 p1 p4 ic v1 v4 by blast
qed

section \<open>The bucket series on the example\<close>

lemma extreme_labels_present:
  "1 \<le> k \<Longrightarrow> Q k \<in> set (quantile_labels k) \<and> Q 1 \<in> set (quantile_labels k)"
  by (auto simp add: quantile_labels_upt)

lemma long_short_main_branch:
  assumes "ensure_factors self = Inr self'" and "map_of (factors self') name = Some factor"
    and "1 \<le> k"
  shows "calculate_long_short_returns self name k =
     Inr (sub_series
            (column (group_returns_table (returns self') (fst (bucket_all factor k)) (quantile_labels k)) (Q k))
            (column (group_returns_table (returns self') (fst (bucket_all factor k)) (quantile_labels k)) (Q 1)),
          snd (bucket_all factor k), self')"
  using assms extreme_labels_present [of k]
  by (simp add: calculate_long_short_returns_def calculate_factor_returns_def split_beta)

text \<open>
  C1 states that the bucket series at a date is the equal-weighted mean of the forward
  returns of the instruments holding the label, and is missing when no instrument holds
  it. The code at the example: on date 1 only instrument A holds \<open>Q 1\<close> and its forward
  return is 3/100, yet the \<open>Q 1\<close> series is 1/100, the sum over the bucket divided by the
  number of all instruments with a return; on date 4, which the bucketing skipped, no
  instrument holds a label, yet the \<open>Q 1\<close> series is 0 and not missing.
\<close>

theorem bucket_series_counts_all_instruments:
  "\<exists>g out. calculate_factor_returns ex_backtest ''f'' 3 = Inr (g, out, ex_backtest)
     \<and> map (cell (fst (bucket_all ex_factor 3)) 1) [''A'', ''B'', ''C'']
          = [Some (Q 1), Some (Q 2), Some (Q 3)]
     \<and> map (cell_at ex_returns 1) [''A'', ''B'', ''C''] = [Some (3 / 100), Some (6 / 100), Some (9 / 100)]
     \<and> cell_at g 1 (Q 1) = Some (1 / 100)
     \<and> map (cell (fst (bucket_all ex_factor 3)) 4) [''A'', ''B'', ''C''] = [None, None, None]
     \<and> cell_at g 4 (Q 1) = Some 0"
proof -
  define g where "g = group_returns_table ex_returns (fst (bucket_all ex_factor 3)) (quantile_labels 3)"
  have r: "calculate_factor_returns ex_backtest ''f'' 3 = Inr (g, snd (bucket_all ex_factor 3), ex_backtest)"
    by (simp add: calculate_factor_returns_def ensure_factors_def ex_backtest_def split_beta g_def)
  have a: "map (cell (fst (bucket_all ex_factor 3)) 1) [''A'', ''B'', ''C'']
          = [Some (Q 1), Some (Q 2), Some (Q 3)]" by code_simp
  have b: "map (cell_at ex_returns 1) [''A'', ''B'', ''C''] = [Some (3 / 100), Some (6 / 100), Some (9 / 100)]"
    by code_simp
  have c: "cell_at g 1 (Q 1) = Some (1 / 100)" unfolding g_def by code_simp
  have d: "map (cell (fst (bucket_all ex_factor 3)) 4) [''A'', ''B'', ''C''] = [None, None, None]"
    by code_simp
  have e: "cell_at g 4 (Q 1) = Some 0" unfolding g_def by code_simp
  show ?thesis
    by (intro exI conjI) (rule r a b c d e)+
qed

lemma sharpe_of_zero_std: "sstd r = Some 0 \<Longrightarrow> 0 \<le> A \<Longrightarrow> calculate_sharpe_ratio r A = Some 0"
  by (simp add: calculate_sharpe_ratio_def np_sqrt_def)

text \<open>
  C3 states that a factor whose values are identical across instruments on every date is
  excluded from the results. The code at the example with the factors \<open>f\<close> and \<open>c\<close>, where
  \<open>c\<close> is constant: every date of \<open>c\<close> is skipped, its long-short series is 0 on every date
  and not missing, so \<open>c\<close> stays in the results with Sharpe ratio 0, no diagnostic of an
  empty long-short series is printed, and the average Sharpe ratio is taken over both
  factors.
\<close>

theorem constant_factor_is_not_excluded:
  "\<exists>results out b r sf. evaluate_all_factors ex_backtest2 3 = Inr (results, out, b)
      \<and> map fst results = [''f'', ''c'', ''correlation_matrix'', ''average_sharpe'']
      \<and> map_of results ''c'' = Some (FactorStats r) \<and> sharpe_ratio r = Some 0
      \<and> s_values (fr_returns r) = [Some 0, Some 0, Some 0, Some 0]
      \<and> map_of results ''average_sharpe'' = Some (Number (np_mean [sf, Some 0]))
      \<and> out = snd (bucket_all ex_factor 3) @ snd (bucket_all ex_const_factor 3)"
proof -
  define ls_f where "ls_f = sub_series
      (column (group_returns_table ex_returns (fst (bucket_all ex_factor 3)) (quantile_labels 3)) (Q 3))
      (column (group_returns_table ex_returns (fst (bucket_all ex_factor 3)) (quantile_labels 3)) (Q 1))"
  define ls_c where "ls_c = sub_series
      (column (group_returns_table ex_returns (fst (bucket_all ex_const_factor 3)) (quantile_labels 3)) (Q 3))
      (column (group_returns_table ex_returns (fst (bucket_all ex_const_factor 3)) (quantile_labels 3)) (Q 1))"
  have e: "ensure_factors ex_backtest2 = Inr ex_backtest2"
    by (simp add: ensure_factors_def ex_backtest2_def)
  have rt: "returns ex_backtest2 = ex_returns" by (simp add: ex_backtest2_def)
  have mf: "map_of (factors ex_backtest2) ''f'' = Some ex_factor" by (simp add: ex_backtest2_def)
  have mc: "map_of (factors ex_backtest2) ''c'' = Some ex_const_factor" by (simp add: ex_backtest2_def)
  have lf: "calculate_long_short_returns ex_backtest2 ''f'' 3 =
      Inr (ls_f, snd (bucket_all ex_factor 3), ex_backtest2)"
    using long_short_main_branch [OF e mf, of 3] by (simp add: rt ls_f_def)
  have lc: "calculate_long_short_returns ex_backtest2 ''c'' 3 =
      Inr (ls_c, snd (bucket_all ex_const_factor 3), ex_backtest2)"
    using long_short_main_branch [OF e mc, of 3] by (simp add: rt ls_c_def)
  have nf: "\<not> empty_or_all_na ls_f" unfolding ls_f_def by code_simp
  have vc: "s_values ls_c = [Some 0, Some 0, Some 0, Some 0]" unfolding ls_c_def by code_simp
  have ic: "s_index ls_c \<noteq> []" unfolding ls_c_def by code_simp
  have nc: "\<not> empty_or_all_na ls_c" using ic by (simp add: empty_or_all_na_def vc)
  have "sstd ls_c = Some 0" by (simp add: sstd_def vc nanstd_def)
  then have sc: "calculate_sharpe_ratio ls_c 252 = Some 0" by (simp add: sharpe_of_zero_std)
  obtain icf where icf: "calculate_factor_ic ex_backtest2 ''f'' = Inr (icf, ex_backtest2)"
    using e mf by (simp add: calculate_factor_ic_def)
  obtain icc where icc: "calculate_factor_ic ex_backtest2 ''c'' = Inr (icc, ex_backtest2)"
    using e mc by (simp add: calculate_factor_ic_def)
  obtain cm where cm: "calculate_factor_correlation ex_backtest2 = Inr (cm, ex_backtest2)"
    using e by (simp add: calculate_factor_correlation_def ex_backtest2_def)
  have names: "map fst (factors ex_backtest2) = [''f'', ''c'']" by (simp add: ex_backtest2_def)
  define rf where "rf = \<lparr>sharpe_ratio = calculate_sharpe_ratio ls_f 252, mean_ic = smean icf,
      ic_ir = (if sstd icf \<noteq> Some 0 then fdiv (smean icf) (sstd icf) else Some 0), fr_returns = ls_f\<rparr>"
  define rc where "rc = \<lparr>sharpe_ratio = Some 0, mean_ic = smean icc,
      ic_ir = (if sstd icc \<noteq> Some 0 then fdiv (smean icc) (sstd icc) else Some 0), fr_returns = ls_c\<rparr>"
  have loop: "evaluate_loop ex_backtest2 3 [''f'', ''c''] ([], []) =
      Inr ([(''f'', FactorStats rf), (''c'', FactorStats rc)],
           snd (bucket_all ex_factor 3) @ snd (bucket_all ex_const_factor 3), ex_backtest2)"
    by (simp add: lf lc nf nc sc icf icc rf_def rc_def)
  have srf: "sharpe_ratio rf = calculate_sharpe_ratio ls_f 252" by (simp add: rf_def)
  have src: "sharpe_ratio rc = Some 0" by (simp add: rc_def)
  have frc: "fr_returns rc = ls_c" by (simp add: rc_def)
  have ev: "evaluate_all_factors ex_backtest2 3 =
      Inr ([(''f'', FactorStats rf), (''c'', FactorStats rc), (''correlation_matrix'', Matrix cm),
            (''average_sharpe'', Number (np_mean [calculate_sharpe_ratio ls_f 252, Some 0]))],
           snd (bucket_all ex_factor 3) @ snd (bucket_all ex_const_factor 3), ex_backtest2)"
    by (simp add: evaluate_all_factors_def e names loop cm srf src del: evaluate_loop.simps)
  define results where "results = [(''f'', FactorStats rf), (''c'', FactorStats rc),
      (''correlation_matrix'', Matrix cm),
      (''average_sharpe'', Number (np_mean [calculate_sharpe_ratio ls_f 252, Some 0]))]"
  have k1: "map fst results = [''f'', ''c'', ''correlation_matrix'', ''average_sharpe'']"
    by (simp add: results_def)
  have k2: "map_of results ''c'' = Some (FactorStats rc)"
    by (simp add: results_def)
  have k3: "map_of results ''average_sharpe'' =
      Some (Number (np_mean [calculate_sharpe_ratio ls_f 252, Some 0]))"
    by (simp add: results_def)
  have k4: "s_values (fr_returns rc) = [Some 0, Some 0, Some 0, Some 0]"
    by (simp add: frc vc)
  note ev' = ev [folded results_def]
  show ?thesis
    by (intro exI conjI) (rule ev' k1 k2 src k4 k3 refl)+
qed

section \<open>Properties of construction and factor computation\<close>

lemma index_map_columns [simp]: "index (map_columns g f) = index f"
  by (simp add: map_columns_def)

lemma columns_map_columns [simp]: "columns (map_columns g f) = columns f"
  by (simp add: map_columns_def)

lemma index_map_cells [simp]: "index (map_cells g f) = index f"
  by (simp add: map_cells_def)

lemma columns_map_cells [simp]: "columns (map_cells g f) = columns f"
  by (simp add: map_cells_def)

lemma index_binop_frames [simp]: "index (binop_frames g a b) = align_labels (index a) (index b)"
  by (simp add: binop_frames_def)

lemma columns_binop_frames [simp]:
  "columns (binop_frames g a b) = align_labels (columns a) (columns b)"
  by (simp add: binop_frames_def)

lemma index_shift [simp]: "index (shift n f) = index f"
  by (simp add: shift_def)

lemma columns_shift [simp]: "columns (shift n f) = columns f"
  by (simp add: shift_def)

lemma index_pct_change [simp]: "index (pct_change n f) = index f"
  by (simp add: pct_change_def)

lemma columns_pct_change [simp]: "columns (pct_change n f) = columns f"
  by (simp add: pct_change_def)

lemma index_price_reversal [simp]: "index (price_reversal p w) = index p"
  by (simp add: price_reversal_def)

lemma index_volume_price_ratio [simp]:
  "index (volume_price_ratio p v w) = align_labels (index v) (index p)"
  by (simp add: volume_price_ratio_def)

lemma volatility_breakout_index:
  "volatility_breakout h l c w = Inr f \<Longrightarrow> index f = index c \<and> index h = index c \<and> index l = index c"
  by (auto simp add: volatility_breakout_def compare_frames_def Let_def
      split: if_splits sum.splits)

lemma volatility_breakout_ok:
  "index h = index c \<Longrightarrow> columns h = columns c \<Longrightarrow> index l = index c \<Longrightarrow> columns l = columns c
   \<Longrightarrow> \<exists>f. volatility_breakout h l c w = Inr f"
  by (simp add: volatility_breakout_def compare_frames_def Let_def)

lemma filter_data_lookup:
  "filter_data d ds = Inr d' \<Longrightarrow>
     map_of d' k = (case map_of d k of None \<Rightarrow> None | Some p \<Rightarrow> Some (p\<lparr>index := ds\<rparr>))"
proof (induction d ds arbitrary: d' rule: filter_data.induct)
  case (1 dates)
  then show ?case by simp
next
  case (2 key df rest dates)
  then show ?case
    by (auto simp add: loc_dates_def Let_def split: sum.splits if_splits)
qed

lemma filter_data_ok:
  "(\<forall>p\<in>snd ` set d. set ds \<subseteq> set (index p)) \<Longrightarrow> \<exists>d'. filter_data d ds = Inr d'"
proof (induction d ds rule: filter_data.induct)
  case (1 dates)
  then show ?case by simp
next
  case (2 key df rest dates)
  have "filter (\<lambda>d. d \<notin> set (index df)) dates = []"
    using 2(2) by (auto simp add: filter_empty_conv)
  then have l: "loc_dates df dates = Inr (df\<lparr>index := dates\<rparr>)"
    by (simp add: loc_dates_def)
  from 2(1) [OF l] 2(2) obtain r where "filter_data rest dates = Inr r" by auto
  with l show ?case by simp
qed

lemma calculate_all_factors_index:
  assumes "calculate_all_factors d = Inr fs"
    and "\<And>k p. map_of d k = Some p \<Longrightarrow> index p = ds"
  shows "\<forall>f\<in>snd ` set fs. index f = ds"
  using assms(1)
  by (auto simp add: calculate_all_factors_def Let_def assms(2)
      split: option.splits sum.splits dest!: volatility_breakout_index)

lemma calculate_all_factors_missing:
  assumes "map_of d ''close'' \<noteq> None"
    and "map_of d ''volume'' = None \<or> map_of d ''high'' = None \<or> map_of d ''low'' = None"
  shows "calculate_all_factors d = Inl (KeyError (first_missing d))"
  using assms
  by (auto simp add: calculate_all_factors_def first_missing_def Let_def split: option.splits)

lemma calculate_all_factors_ok:
  assumes "map_of d ''close'' = Some c" and "map_of d ''volume'' = Some v"
    and "map_of d ''high'' = Some h" and "map_of d ''low'' = Some l"
    and "index h = index c" and "columns h = columns c"
    and "index l = index c" and "columns l = columns c"
  shows "\<exists>fs. calculate_all_factors d = Inr fs"
  using assms volatility_breakout_ok [of h c l 20]
  by (auto simp add: calculate_all_factors_def Let_def)

lemma filter_data_error: "filter_data d ds = Inl e \<Longrightarrow> \<exists>ms. e = IndexKeyError ms"
proof (induction d ds rule: filter_data.induct)
  case (1 dates)
  then show ?case by simp
next
  case (2 key df rest dates)
  then show ?case
    by (auto simp add: loc_dates_def Let_def split: sum.splits if_splits)
qed

lemma init_result:
  "init ohlcv = (case map_of ohlcv ''close'' of None \<Rightarrow> Inl (KeyError ''close'')
     | Some c \<Rightarrow> Inr \<lparr>ohlcv_data = ohlcv, factors = [], returns = shift (- 1) (pct_change 1 c)\<rparr>)"
  by (simp add: init_def)

lemma init_fields:
  "init ohlcv = Inr b \<Longrightarrow> ohlcv_data b = ohlcv \<and> factors b = [] \<and> map_of ohlcv ''close'' \<noteq> None"
  by (auto simp add: init_def split: option.splits)

lemma first_missing_filter_data:
  "filter_data d ds = Inr d' \<Longrightarrow> first_missing d' = first_missing d"
  by (simp add: first_missing_def filter_data_lookup split: option.splits)

lemma calculate_factors_missing_key:
  assumes "map_of (ohlcv_data b) ''close'' \<noteq> None"
    and "map_of (ohlcv_data b) ''volume'' = None \<or> map_of (ohlcv_data b) ''high'' = None
         \<or> map_of (ohlcv_data b) ''low'' = None"
  shows "\<exists>e. calculate_factors b = Inl e
     \<and> (e = KeyError (first_missing (ohlcv_data b)) \<or> (\<exists>ds. e = IndexKeyError ds))"
proof -
  obtain c where c: "map_of (ohlcv_data b) ''close'' = Some c" using assms(1) by auto
  define ds where "ds = filter (enough_data c) (index c)"
  show ?thesis
  proof (cases "filter_data (ohlcv_data b) ds")
    case (Inl e)
    then show ?thesis
      using filter_data_error [OF Inl] by (simp add: calculate_factors_def c ds_def Let_def)
  next
    case (Inr d')
    have "map_of d' ''close'' \<noteq> None"
      by (simp add: filter_data_lookup [OF Inr] c)
    moreover have "map_of d' ''volume'' = None \<or> map_of d' ''high'' = None \<or> map_of d' ''low'' = None"
      using assms(2) by (auto simp add: filter_data_lookup [OF Inr])
    ultimately have "calculate_all_factors d' = Inl (KeyError (first_missing d'))"
      by (rule calculate_all_factors_missing)
    then show ?thesis
      using Inr by (simp add: calculate_factors_def c ds_def [symmetric] first_missing_filter_data)
  qed
qed

lemma calculate_factors_ok:
  assumes "map_of (ohlcv_data b) ''close'' = Some c" and "map_of (ohlcv_data b) ''volume'' = Some v"
    and "map_of (ohlcv_data b) ''high'' = Some h" and "map_of (ohlcv_data b) ''low'' = Some l"
    and "index h = index c" and "columns h = columns c"
    and "index l = index c" and "columns l = columns c"
    and "\<forall>p\<in>snd ` set (ohlcv_data b). set (index c) \<subseteq> set (index p)"
  shows "\<exists>b'. calculate_factors b = Inr b'"
proof -
  define ds where "ds = filter (enough_data c) (index c)"
  have "\<forall>p\<in>snd ` set (ohlcv_data b). set ds \<subseteq> set (index p)"
    using assms(9) by (auto simp add: ds_def)
  then obtain d' where d': "filter_data (ohlcv_data b) ds = Inr d'"
    using filter_data_ok by blast
  have "\<exists>fs. calculate_all_factors d' = Inr fs"
    by (rule calculate_all_factors_ok [of d' "c\<lparr>index := ds\<rparr>" "v\<lparr>index := ds\<rparr>"
          "h\<lparr>index := ds\<rparr>" "l\<lparr>index := ds\<rparr>"])
       (simp_all add: filter_data_lookup [OF d'] assms)
  then show ?thesis
    using d' by (auto simp add: calculate_factors_def assms(1) ds_def [symmetric])
qed

text \<open>
  C8 (as amended). Construction fails with \<open>KeyError('close')\<close> when the dictionary has no
  \<open>close\<close> panel, and otherwise succeeds without looking at any other key. A dictionary
  without \<open>volume\<close>, \<open>high\<close> or \<open>low\<close> makes \<open>calculate_factors\<close> fail, with the
  \<open>KeyError\<close> of the first such key in reading order or with the \<open>KeyError\<close> of the date
  filter. The key \<open>open\<close> is never read: when \<open>close\<close>, \<open>volume\<close>, \<open>high\<close> and \<open>low\<close> are
  present, \<open>high\<close> and \<open>low\<close> are labelled as \<open>close\<close>, and every panel given has the dates of
  \<open>close\<close>, \<open>calculate_factors\<close> succeeds.
\<close>

theorem required_keys_are_read_lazily:
  "(map_of ohlcv ''close'' = None \<longrightarrow> init ohlcv = Inl (KeyError ''close''))
   \<and> (map_of ohlcv ''close'' \<noteq> None \<longrightarrow>
        (\<exists>b. init ohlcv = Inr b \<and> ohlcv_data b = ohlcv \<and> factors b = []))
   \<and> (\<forall>b. init ohlcv = Inr b
         \<and> (map_of ohlcv ''volume'' = None \<or> map_of ohlcv ''high'' = None \<or> map_of ohlcv ''low'' = None)
        \<longrightarrow> (\<exists>e. calculate_factors b = Inl e
              \<and> (e = KeyError (first_missing ohlcv) \<or> (\<exists>ds. e = IndexKeyError ds))))
   \<and> (\<forall>b c v h l. init ohlcv = Inr b \<and> map_of ohlcv ''close'' = Some c
         \<and> map_of ohlcv ''volume'' = Some v \<and> map_of ohlcv ''high'' = Some h
         \<and> map_of ohlcv ''low'' = Some l
         \<and> index h = index c \<and> columns h = columns c \<and> index l = index c \<and> columns l = columns c
         \<and> (\<forall>p\<in>snd ` set ohlcv. set (index c) \<subseteq> set (index p))
        \<longrightarrow> (\<exists>b'. calculate_factors b = Inr b'))"
proof (intro conjI allI impI)
  assume "map_of ohlcv ''close'' = None"
  then show "init ohlcv = Inl (KeyError ''close'')" by (simp add: init_def)
next
  assume "map_of ohlcv ''close'' \<noteq> None"
  then show "\<exists>b. init ohlcv = Inr b \<and> ohlcv_data b = ohlcv \<and> factors b = []"
    by (auto simp add: init_def)
next
  fix b
  assume a: "init ohlcv = Inr b
         \<and> (map_of ohlcv ''volume'' = None \<or> map_of ohlcv ''high'' = None \<or> map_of ohlcv ''low'' = None)"
  then have f: "ohlcv_data b = ohlcv" "map_of ohlcv ''close'' \<noteq> None"
    using init_fields [of ohlcv b] by simp_all
  show "\<exists>e. calculate_factors b = Inl e
              \<and> (e = KeyError (first_missing ohlcv) \<or> (\<exists>ds. e = IndexKeyError ds))"
    using calculate_factors_missing_key [of b] a f by simp
next
  fix b c v h l
  assume a: "init ohlcv = Inr b \<and> map_of ohlcv ''close'' = Some c
         \<and> map_of ohlcv ''volume'' = Some v \<and> map_of ohlcv ''high'' = Some h
         \<and> map_of ohlcv ''low'' = Some l
         \<and> index h = index c \<and> columns h = columns c \<and> index l = index c \<and> columns l = columns c
         \<and> (\<forall>p\<in>snd ` set ohlcv. set (index c) \<subseteq> set (index p))"
  then have f: "ohlcv_data b = ohlcv"
    using init_fields [of ohlcv b] by simp
  show "\<exists>b'. calculate_factors b = Inr b'"
    by (rule calculate_factors_ok [of b c v h l]) (use a f in simp_all)
qed

theorem required_keys_are_read_lazily_witness:
  "map_of ex_ohlcv_no_volume ''close'' = Some ex_close
   \<and> map_of ex_ohlcv_no_volume ''volume'' = None
   \<and> init ex_ohlcv_no_volume = Inr ex_b_volume
   \<and> first_missing ex_ohlcv_no_volume = ''volume''
   \<and> isl (calculate_factors ex_b_volume)"
proof -
  have c: "map_of ex_ohlcv_no_volume ''close'' = Some ex_close"
    by (simp add: ex_ohlcv_no_volume_def)
  have v: "map_of ex_ohlcv_no_volume ''volume'' = None"
    by (simp add: ex_ohlcv_no_volume_def)
  have i: "init ex_ohlcv_no_volume = Inr ex_b_volume"
    by (simp add: init_def c ex_b_volume_def)
  have m: "first_missing ex_ohlcv_no_volume = ''volume''"
    by (simp add: first_missing_def v)
  have "\<exists>e. calculate_factors ex_b_volume = Inl e"
    using required_keys_are_read_lazily [of ex_ohlcv_no_volume] i v by blast
  then have "isl (calculate_factors ex_b_volume)" by auto
  then show ?thesis using c v i m by simp
qed

lemma ex_no_open_init: "init ex_ohlcv_no_open = Inr ex_b_open"
  by (simp add: init_def ex_ohlcv_no_open_def ex_b_open_def)

lemma ex_no_open_factors: "\<exists>b'. calculate_factors ex_b_open = Inr b'"
  by (rule calculate_factors_ok [of _ ex_close ex_volume ex_high ex_low])
    (simp_all add: ex_b_open_def ex_ohlcv_no_open_def ex_close_def ex_volume_def ex_high_def
      ex_low_def mk_frame_def)

text \<open>
  C8 as the specification states it fails on a dictionary without the key \<open>open\<close>:
  construction and \<open>calculate_factors\<close> both succeed.
\<close>

theorem absent_open_counterexample:
  "map_of ex_ohlcv_no_open ''open'' = None \<and> init ex_ohlcv_no_open = Inr ex_b_open
     \<and> \<not> isl (calculate_factors ex_b_open)"
  using ex_no_open_init ex_no_open_factors
  by (auto simp add: ex_ohlcv_no_open_def)

lemma init_returns_index:
  "init ohlcv = Inr b \<Longrightarrow> map_of ohlcv ''close'' = Some c \<Longrightarrow> index (returns b) = index c"
  by (auto simp add: init_def)

lemma calculate_factors_result:
  assumes "map_of (ohlcv_data b) ''close'' = Some c" and "calculate_factors b = Inr b'"
  shows "returns b' = returns b
     \<and> (\<forall>f\<in>snd ` set (factors b'). index f = filter (enough_data c) (index c))
     \<and> map fst (factors b') = [''price_reversal'', ''volume_price_ratio'', ''volatility_breakout'']"
proof -
  define ds where "ds = filter (enough_data c) (index c)"
  from assms obtain d' fs where d': "filter_data (ohlcv_data b) ds = Inr d'"
    and fs: "calculate_all_factors d' = Inr fs" and b': "b' = b\<lparr>factors := fs\<rparr>"
    by (auto simp add: calculate_factors_def ds_def Let_def split: sum.splits)
  have ix: "index p = ds" if "map_of d' k = Some p" for k p
    using that by (auto simp add: filter_data_lookup [OF d'] split: option.splits)
  have a: "\<forall>f\<in>snd ` set fs. index f = ds"
    using calculate_all_factors_index [OF fs ix] by simp
  have n: "map fst fs = [''price_reversal'', ''volume_price_ratio'', ''volatility_breakout'']"
    using fs by (auto simp add: calculate_all_factors_def Let_def split: option.splits sum.splits)
  show ?thesis
    using a n by (simp add: b' ds_def)
qed

text \<open>
  C10. After construction, \<open>calculate_factors\<close> keeps the dates of the close panel on which
  at least 80% of the instruments have a close price and computes the three factors from
  the filtered panels: the date index of every factor panel is exactly the list of kept
  dates, so each of its dates meets the threshold. The forward-return panel is the one
  computed at construction, over all dates of the close panel; whenever some date fails
  the threshold, every factor panel's date index differs from that of the return panel.
\<close>

theorem factor_dates_meet_data_threshold:
  assumes "init ohlcv = Inr b" and "map_of ohlcv ''close'' = Some close_p"
    and "calculate_factors b = Inr b'"
  shows "index (returns b') = index close_p
     \<and> map fst (factors b') = [''price_reversal'', ''volume_price_ratio'', ''volatility_breakout'']
     \<and> (\<forall>f\<in>snd ` set (factors b').
           index f = filter (enough_data close_p) (index close_p))
     \<and> (\<forall>f\<in>snd ` set (factors b'). \<forall>d\<in>set (index f).
           4 * length (columns close_p) \<le> 5 * length (dropna (loc_row close_p d)))
     \<and> ((\<exists>d\<in>set (index close_p). \<not> enough_data close_p d) \<longrightarrow>
           (\<forall>f\<in>snd ` set (factors b'). index f \<noteq> index (returns b')))"
proof -
  have o: "ohlcv_data b = ohlcv" using init_fields [OF assms(1)] by simp
  note r = calculate_factors_result [of b close_p b', unfolded o, OF assms(2,3)]
  have i: "index (returns b') = index close_p"
    using r init_returns_index [OF assms(1,2)] by simp
  have t: "\<forall>f\<in>snd ` set (factors b'). \<forall>d\<in>set (index f).
           4 * length (columns close_p) \<le> 5 * length (dropna (loc_row close_p d))"
  proof (intro ballI)
    fix f d assume "f \<in> snd ` set (factors b')" and d: "d \<in> set (index f)"
    then have "index f = filter (enough_data close_p) (index close_p)" using r by blast
    with d have "enough_data close_p d" by simp
    then show "4 * length (columns close_p) \<le> 5 * length (dropna (loc_row close_p d))"
      by (simp add: enough_data_def Let_def)
  qed
  have n: "(\<exists>d\<in>set (index close_p). \<not> enough_data close_p d) \<longrightarrow>
           (\<forall>f\<in>snd ` set (factors b'). index f \<noteq> index (returns b'))"
  proof (intro impI ballI)
    fix f assume e: "\<exists>d\<in>set (index close_p). \<not> enough_data close_p d"
      and "f \<in> snd ` set (factors b')"
    then have "index f = filter (enough_data close_p) (index close_p)" using r by blast
    moreover have "filter (enough_data close_p) (index close_p) \<noteq> index close_p"
      using e by (simp add: filter_id_conv)
    ultimately show "index f \<noteq> index (returns b')" by (simp add: i)
  qed
  show ?thesis using i r t n by blast
qed

lemma map_const_replicate: "\<forall>f\<in>set fs. g f = v \<Longrightarrow> map g fs = replicate (length fs) v"
  by (induction fs) auto

theorem factor_dates_meet_data_threshold_witness:
  "init ex_ohlcv_no_open = Inr ex_b_open
   \<and> map_of ex_ohlcv_no_open ''close'' = Some ex_close
   \<and> \<not> isl (calculate_factors ex_b_open)
   \<and> index ex_close = [1, 2]
   \<and> filter (enough_data ex_close) (index ex_close) = [1]
   \<and> index (returns (projr (calculate_factors ex_b_open))) = [1, 2]
   \<and> map (\<lambda>f. index (snd f)) (factors (projr (calculate_factors ex_b_open))) = [[1], [1], [1]]"
proof -
  have c: "map_of ex_ohlcv_no_open ''close'' = Some ex_close"
    by (simp add: ex_ohlcv_no_open_def)
  obtain b' where b': "calculate_factors ex_b_open = Inr b'"
    using ex_no_open_factors by blast
  have ic: "index ex_close = [1, 2]" by (simp add: ex_close_def mk_frame_def)
  have fl: "filter (enough_data ex_close) (index ex_close) = [1]" by code_simp
  note t = factor_dates_meet_data_threshold [OF ex_no_open_init c b']
  have "length (map fst (factors b')) = 3"
    using t by simp
  then have l: "length (factors b') = 3" by simp
  have "\<forall>f\<in>set (factors b'). index (snd f) = [1]"
    using t fl by auto
  then have "map (\<lambda>f. index (snd f)) (factors b') = replicate (length (factors b')) [1]"
    by (rule map_const_replicate)
  then have m: "map (\<lambda>f. index (snd f)) (factors b') = [[1], [1], [1]]"
    by (simp add: l numeral_3_eq_3)
  have i: "index (returns b') = [1, 2]" using t ic by simp
  show ?thesis
    using ex_no_open_init c b' ic fl i m by simp
qed

section \<open>Properties of the ranks and the quantile cut\<close>

lemma dropna_conv: "dropna vs = map the (filter (\<lambda>v. v \<noteq> None) vs)"
  by (induction vs rule: dropna.induct) simp_all

lemma length_filter_dropna:
  "length (filter P (dropna vs)) = card {j. j < length vs \<and> (\<exists>w. vs ! j = Some w \<and> P w)}"
proof -
  have "length (filter P (dropna vs)) = length (filter (\<lambda>v. v \<noteq> None \<and> P (the v)) vs)"
    by (simp add: dropna_conv filter_map comp_def)
  also have "\<dots> = card {j. j < length vs \<and> vs ! j \<noteq> None \<and> P (the (vs ! j))}"
    by (simp add: length_filter_conv_card)
  also have "{j. j < length vs \<and> vs ! j \<noteq> None \<and> P (the (vs ! j))}
      = {j. j < length vs \<and> (\<exists>w. vs ! j = Some w \<and> P w)}"
    by auto
  finally show ?thesis .
qed


lemma rank_first_length [simp]: "length (rank_first vs) = length vs"
  by (simp add: rank_first_def)

lemma rank_first_None: "i < length vs \<Longrightarrow> vs ! i = None \<Longrightarrow> rank_first vs ! i = None"
  by (simp add: rank_first_def)

lemma rank_first_Some:
  assumes "i < length vs" and "vs ! i = Some v"
  shows "rank_first vs ! i = Some (real (1 + card (before vs i)))"
proof -
  have a: "length (filter (\<lambda>w. w < v) (dropna vs))
      = card {j. j < length vs \<and> (\<exists>w. vs ! j = Some w \<and> w < v)}"
    by (rule length_filter_dropna)
  have "length (filter (\<lambda>w. w = v) (dropna (take i vs)))
      = card {j. j < length (take i vs) \<and> (\<exists>w. take i vs ! j = Some w \<and> w = v)}"
    by (rule length_filter_dropna)
  also have "{j. j < length (take i vs) \<and> (\<exists>w. take i vs ! j = Some w \<and> w = v)}
      = {j. j < length vs \<and> (\<exists>w. vs ! j = Some w \<and> w = v \<and> j < i)}"
    using assms(1) by auto
  finally have b: "length (filter (\<lambda>w. w = v) (dropna (take i vs)))
      = card {j. j < length vs \<and> (\<exists>w. vs ! j = Some w \<and> w = v \<and> j < i)}" .
  have u: "before vs i = {j. j < length vs \<and> (\<exists>w. vs ! j = Some w \<and> w < v)}
      \<union> {j. j < length vs \<and> (\<exists>w. vs ! j = Some w \<and> w = v \<and> j < i)}"
    using assms(2) by (auto simp add: before_def)
  have d: "{j. j < length vs \<and> (\<exists>w. vs ! j = Some w \<and> w < v)}
      \<inter> {j. j < length vs \<and> (\<exists>w. vs ! j = Some w \<and> w = v \<and> j < i)} = {}"
    by auto
  have "card (before vs i) = card {j. j < length vs \<and> (\<exists>w. vs ! j = Some w \<and> w < v)}
      + card {j. j < length vs \<and> (\<exists>w. vs ! j = Some w \<and> w = v \<and> j < i)}"
    unfolding u by (rule card_Un_disjoint) auto
  then show ?thesis
    using assms by (simp add: rank_first_def a b)
qed

lemma finite_valid_pos [simp]: "finite (valid_pos vs)"
  by (simp add: valid_pos_def)








lemma valid_pos_rank_first [simp]: "valid_pos (rank_first vs) = valid_pos vs"
proof -
  have "rank_first vs ! j \<noteq> None \<longleftrightarrow> vs ! j \<noteq> None" if "j < length vs" for j
    using that rank_first_None [of j vs] rank_first_Some [of j vs] by (cases "vs ! j") auto
  then show ?thesis by (auto simp add: valid_pos_def)
qed


























lemma length_loc_row [simp]: "length (loc_row f dt) = length (columns f)"
  by (simp add: loc_row_def)






end
